theory Spec2Isabelle
  imports Complex_Main "HOL-Library.Multiset"
begin

section \<open>The LINCS conditional-generation experiment (training_scripts/lincs_experiment.py)\<close>

text \<open>
  The script wraps a base model class in \<open>CondGenExperiment\<close>, which adds a
  mutual-information estimate to the training and validation hooks, and then drives a
  trainer. The base model classes, the networks and the tensor library are not part of the
  script: they enter the model as parameters.
\<close>

subsection \<open>Values\<close>

text \<open>
  A two-dimensional tensor is the list of its rows. The scalar type \<open>'a\<close> is left open:
  the arithmetic of the tensor library is a parameter (\<open>libs\<close> below), so nothing
  here depends on how it rounds.
\<close>

type_synonym 'a tensor = "'a list list"

datatype py_error =
    KeyError | IndexError | TypeError | RuntimeError | AttributeError
  | FileNotFoundError | MisconfigurationException

text \<open>
  The values a stats dictionary holds: a zero-dimensional tensor, a two-dimensional
  tensor, a list of SMILES strings, or a nested dictionary.
\<close>

datatype 'a pyval =
    Scalar 'a
  | Tensor "'a tensor"
  | Strs "string list"
  | Dict "string \<Rightarrow> 'a pyval option"

type_synonym 'a stats = "string \<Rightarrow> 'a pyval option"

type_synonym 'a batch = "string list \<times> 'a tensor"

text \<open>
  The operations of torch and numpy the script calls. \<open>np_random_permutation g n\<close> is
  \<open>np.random.permutation(n)\<close> run in the generator state \<open>g\<close>: it returns the
  permutation drawn and the next state.
\<close>

record ('a, 'g) libs =
  t_exp :: "'a \<Rightarrow> 'a"
  t_log :: "'a \<Rightarrow> 'a"
  t_mean :: "'a list \<Rightarrow> 'a"
  t_sub :: "'a \<Rightarrow> 'a \<Rightarrow> 'a"
  t_add :: "'a \<Rightarrow> 'a \<Rightarrow> 'a"
  t_neg :: "'a \<Rightarrow> 'a"
  t_detach :: "'a tensor \<Rightarrow> 'a tensor"
  np_random_permutation :: "'g \<Rightarrow> nat \<Rightarrow> nat list \<times> 'g"

subsection \<open>The base model class and the experiment class\<close>

datatype 'o optimizer = BaseOptimizer 'o | Adam "string list" real

text \<open>What \<open>configure_optimizers\<close> of a base class may return.\<close>

datatype 'o pyobj =
    Obj "'o optimizer"
  | PyList "'o pyobj list"
  | PyTuple "'o pyobj list"

text \<open>
  The methods and attributes of the base class that \<open>CondGenExperiment\<close> reaches
  through \<open>super()\<close> or \<open>self\<close>. \<open>super_validation_step\<close> is the value of
  \<open>super().validation_step()\<close>, called without arguments; \<open>None\<close> is Python's None.
\<close>

record ('a, 'o) base_model =
  z_dim :: nat
  super_training_step :: "'a batch \<Rightarrow> nat \<Rightarrow> int list \<Rightarrow> 'a stats"
  super_configure_optimizers :: "'o pyobj"
  super_validation_step :: "'a stats option"
  get_latents :: "'a batch \<Rightarrow> 'a tensor"
  sample :: "'a tensor \<Rightarrow> string list"

record ('a, 'o) cond_gen_experiment = "('a, 'o) base_model" +
  mine_enc :: "string list \<Rightarrow> 'a tensor"
  mine_fc :: "'a tensor \<Rightarrow> 'a tensor"

subsection \<open>mi_computation\<close>

text \<open>
  \<open>torch.cat((a, b), dim=-1)\<close> on two-dimensional tensors joins the rows pairwise and
  raises when the batch sizes differ.
\<close>

definition cat_last :: "'a tensor \<Rightarrow> 'a tensor \<Rightarrow> py_error + 'a tensor" where
  "cat_last a b =
     (if length a = length b then Inr (map2 (@) a b) else Inl RuntimeError)"

text \<open>\<open>z[perm]\<close>: the rows of \<open>z\<close> at the indices \<open>perm\<close>, in that order.\<close>

definition index_rows :: "'a tensor \<Rightarrow> nat list \<Rightarrow> py_error + 'a tensor" where
  "index_rows z perm =
     (if list_all (\<lambda>i. i < length z) perm then Inr (map ((!) z) perm)
      else Inl IndexError)"

text \<open>\<open>t.mean()\<close> of a two-dimensional tensor is the mean of all its entries.\<close>

definition tensor_mean :: "('a, 'g, 'm) libs_scheme \<Rightarrow> 'a tensor \<Rightarrow> 'a" where
  "tensor_mean L t = t_mean L (concat t)"

definition tensor_exp :: "('a, 'g, 'm) libs_scheme \<Rightarrow> 'a tensor \<Rightarrow> 'a tensor" where
  "tensor_exp L t = map (map (t_exp L)) t"

definition mi_computation ::
  "('a, 'g) libs \<Rightarrow> ('a, 'o) cond_gen_experiment \<Rightarrow> 'a batch \<Rightarrow> 'a tensor \<Rightarrow> 'g
     \<Rightarrow> (py_error + 'a) \<times> 'g" where
  "mi_computation L self batch z g =
     (case batch of (x, y) \<Rightarrow>
     (case np_random_permutation L g (length z) of (perm, g') \<Rightarrow>
     (case index_rows z perm of Inl e \<Rightarrow> (Inl e, g') | Inr z_shuffled \<Rightarrow>
     (let x_lat = mine_enc self x in
     (case cat_last x_lat z of Inl e \<Rightarrow> (Inl e, g') | Inr xz \<Rightarrow>
     (let t = mine_fc self xz in
     (case cat_last x_lat z_shuffled of Inl e \<Rightarrow> (Inl e, g') | Inr xzs \<Rightarrow>
     (let et = tensor_exp L (mine_fc self xzs);
          mi_lb = t_sub L (tensor_mean L t) (t_log L (tensor_mean L et))
      in (Inr mi_lb, g')))))))))"

subsection \<open>training_step\<close>

text \<open>
  \<open>stats[k] += v\<close> for a zero-dimensional tensor \<open>v\<close>: a missing key raises; a tensor is
  added to in place (a two-dimensional one entry by entry); a list or a dictionary cannot
  take a zero-dimensional tensor.
\<close>

definition iadd_item ::
  "('a, 'g, 'm) libs_scheme \<Rightarrow> 'a stats \<Rightarrow> string \<Rightarrow> 'a \<Rightarrow> py_error + 'a stats" where
  "iadd_item L stats k v =
     (case stats k of
        None \<Rightarrow> Inl KeyError
      | Some (Scalar l) \<Rightarrow> Inr (stats(k \<mapsto> Scalar (t_add L l v)))
      | Some (Tensor t) \<Rightarrow> Inr (stats(k \<mapsto> Tensor (map (map (\<lambda>l. t_add L l v)) t)))
      | Some (Strs ss) \<Rightarrow> Inl TypeError
      | Some (Dict d) \<Rightarrow> Inl TypeError)"

text \<open>
  \<open>stats[k1][k2] = v\<close>: only a dictionary under \<open>k1\<close> takes a string key; a tensor
  rejects it as an index, a list as a type.
\<close>

definition set_item2 ::
  "'a stats \<Rightarrow> string \<Rightarrow> string \<Rightarrow> 'a pyval \<Rightarrow> py_error + 'a stats" where
  "set_item2 stats k1 k2 v =
     (case stats k1 of
        None \<Rightarrow> Inl KeyError
      | Some (Dict d) \<Rightarrow> Inr (stats(k1 \<mapsto> Dict (d(k2 \<mapsto> v))))
      | Some (Scalar l) \<Rightarrow> Inl IndexError
      | Some (Tensor t) \<Rightarrow> Inl IndexError
      | Some (Strs ss) \<Rightarrow> Inl TypeError)"

text \<open>
  \<open>args\<close> is what the trainer passes after \<open>batch_nb\<close>: nothing for a model with one
  optimizer, the optimizer index for a model with several.
\<close>

definition training_step ::
  "('a, 'g) libs \<Rightarrow> ('a, 'o) cond_gen_experiment \<Rightarrow> 'a batch \<Rightarrow> nat \<Rightarrow> int list \<Rightarrow> 'g
     \<Rightarrow> (py_error + 'a stats) \<times> 'g" where
  "training_step L self batch batch_nb args g =
     (let stats = super_training_step self batch batch_nb args in
      (case args of
         [] \<Rightarrow>
           (let batch = (fst batch, t_detach L (snd batch));
                z = t_detach L (get_latents self batch)
            in (case mi_computation L self batch z g of
                  (Inl e, g') \<Rightarrow> (Inl e, g')
                | (Inr mi, g') \<Rightarrow>
                    (case iadd_item L stats ''loss'' (t_neg L mi) of
                       Inl e \<Rightarrow> (Inl e, g')
                     | Inr stats \<Rightarrow>
                         (case set_item2 stats ''log'' ''mi[xz|y]'' (Scalar mi) of
                            Inl e \<Rightarrow> (Inl e, g')
                          | Inr stats \<Rightarrow> (Inr stats, g')))))
       | optimizer_nb # _ \<Rightarrow>
           (if optimizer_nb = 2 then
              (let batch = (fst batch, t_detach L (snd batch));
                   z = t_detach L (get_latents self batch)
               in (case mi_computation L self batch z g of
                     (Inl e, g') \<Rightarrow> (Inl e, g')
                   | (Inr mi, g') \<Rightarrow>
                       (let stats = Map.empty;
                            stats = stats(''loss'' \<mapsto> Scalar (t_neg L mi));
                            stats = stats(''log'' \<mapsto> Dict Map.empty)
                        in (case set_item2 stats ''log'' ''mi[xz|y]'' (Scalar mi) of
                              Inl e \<Rightarrow> (Inl e, g')
                            | Inr stats \<Rightarrow> (Inr stats, g')))))
            else (Inr stats, g))))"

subsection \<open>configure_optimizers\<close>

text \<open>
  \<open>torch.nn.ModuleList([self.mine_fc, self.mine_enc]).parameters()\<close>: the parameters
  are named by the modules that own them, in this order.
\<close>

definition mi_params :: "string list" where
  "mi_params = [''mine_fc'', ''mine_enc'']"

definition configure_optimizers ::
  "('a, 'o) cond_gen_experiment \<Rightarrow> py_error + 'o pyobj" where
  "configure_optimizers self =
     (let optim = super_configure_optimizers self in
      (case optim of
         PyTuple elems \<Rightarrow>
           (case elems of
              [] \<Rightarrow> Inl IndexError
            | PyList opts # rest \<Rightarrow>
                Inr (PyTuple (PyList (opts @ [Obj (Adam mi_params (3 / 10 ^ 4))]) # rest))
            | _ # rest \<Rightarrow> Inl AttributeError)
       | _ \<Rightarrow> Inr optim))"

subsection \<open>validation_step and validation_end\<close>

definition validation_step ::
  "('a, 'g) libs \<Rightarrow> ('a, 'o) cond_gen_experiment \<Rightarrow> 'a batch \<Rightarrow> nat \<Rightarrow> 'g
     \<Rightarrow> (py_error + 'a stats) \<times> 'g" where
  "validation_step L self batch batch_nb g =
     (let stats = super_validation_step self;
          stats = (case stats of None \<Rightarrow> Map.empty | Some s \<Rightarrow> s);
          z = get_latents self batch
      in (case mi_computation L self batch z g of
            (Inl e, g') \<Rightarrow> (Inl e, g')
          | (Inr mi, g') \<Rightarrow>
              (let stats = stats(''mi[xz|y]'' \<mapsto> Scalar mi) in
               (case batch of (x, y) \<Rightarrow>
               (let sampled_x = sample self y;
                    stats = stats(''x_sam'' \<mapsto> Strs sampled_x);
                    stats = stats(''x'' \<mapsto> Strs x);
                    stats = stats(''y'' \<mapsto> Tensor y)
                in (Inr stats, g'))))))"

text \<open>
  \<open>torch.stack(vs).mean()\<close>: every element must be a tensor, the list must not be empty
  and the shapes must agree; the mean is then taken over all entries.
\<close>

definition is_tensor :: "'a pyval \<Rightarrow> bool" where
  "is_tensor v = (case v of Scalar _ \<Rightarrow> True | Tensor _ \<Rightarrow> True | _ \<Rightarrow> False)"

fun scalars_of :: "'a pyval list \<Rightarrow> 'a list option" where
  "scalars_of [] = Some []"
| "scalars_of (Scalar a # vs) = map_option ((#) a) (scalars_of vs)"
| "scalars_of (_ # vs) = None"

fun tensors_of :: "'a pyval list \<Rightarrow> 'a tensor list option" where
  "tensors_of [] = Some []"
| "tensors_of (Tensor t # vs) = map_option ((#) t) (tensors_of vs)"
| "tensors_of (_ # vs) = None"

definition stack_mean :: "('a, 'g, 'm) libs_scheme \<Rightarrow> 'a pyval list \<Rightarrow> py_error + 'a" where
  "stack_mean L vs =
     (if \<not> list_all is_tensor vs then Inl TypeError
      else if vs = [] then Inl RuntimeError
      else (case scalars_of vs of
              Some xs \<Rightarrow> Inr (t_mean L xs)
            | None \<Rightarrow>
                (case tensors_of vs of
                   Some ts \<Rightarrow>
                     (if list_all (\<lambda>t. map length t = map length (hd ts)) ts
                      then Inr (t_mean L (concat (concat ts)))
                      else Inl RuntimeError)
                 | None \<Rightarrow> Inl RuntimeError)))"

text \<open>
  The chemistry and plotting libraries are symbolic: a molecule is the SMILES string it
  was parsed from, a grid image is the molecules drawn and the number per row, and the
  logged array is the raster of the figure (\<open>figsize\<close>, \<open>dpi\<close>) that shows the grid.
\<close>

datatype mol = MolFromSmiles string

datatype grid_image = MolsToGridImage "mol list" nat

datatype fig_array = FigArray "nat \<times> nat" nat grid_image

text \<open>\<open>[Chem.MolFromSmiles(s) for s in v[:5]]\<close>\<close>

definition mols_of_first5 :: "'a pyval option \<Rightarrow> py_error + mol list" where
  "mols_of_first5 v =
     (case v of
        None \<Rightarrow> Inl KeyError
      | Some (Strs ss) \<Rightarrow> Inr (map MolFromSmiles (take 5 ss))
      | Some (Scalar a) \<Rightarrow> Inl IndexError
      | Some (Tensor t) \<Rightarrow> (if take 5 t = [] then Inr [] else Inl TypeError)
      | Some (Dict d) \<Rightarrow> Inl TypeError)"

text \<open>
  The experiment logger is the list of the images added so far, each under its tag.
  \<open>validation_end\<close> returns the logger after the call and the dictionary returned.
\<close>

type_synonym logger = "(string \<times> fig_array) list"

definition validation_end ::
  "('a, 'g, 'm) libs_scheme \<Rightarrow> 'a stats list \<Rightarrow> logger \<Rightarrow> py_error + (logger \<times> 'a stats)" where
  "validation_end L outputs logger =
     (case those (map (\<lambda>x. x ''mi[xz|y]'') outputs) of
        None \<Rightarrow> Inl KeyError
      | Some mis \<Rightarrow>
     (case stack_mean L mis of
        Inl e \<Rightarrow> Inl e
      | Inr m \<Rightarrow>
     (let val_stats = Map.empty;
          val_stats = val_stats(''val_mi[xz|y]'' \<mapsto> Scalar m)
      in (case outputs of
            [] \<Rightarrow> Inl IndexError
          | out0 # _ \<Rightarrow>
     (case mols_of_first5 (out0 ''x_sam'') of
        Inl e \<Rightarrow> Inl e
      | Inr sam \<Rightarrow>
     (case mols_of_first5 (out0 ''x'') of
        Inl e \<Rightarrow> Inl e
      | Inr orig \<Rightarrow>
     (let fig_array = FigArray (10, 4) 300 (MolsToGridImage (sam @ orig) 5)
      in Inr (logger @ [(''samples'', fig_array)],
              Map.empty(''log'' \<mapsto> Dict val_stats)))))))))"

subsection \<open>Data loaders\<close>

record dataloader =
  ds_root :: string
  ds_test_set :: nat
  ds_use_smiles :: bool
  dl_batch_size :: nat
  dl_shuffle :: bool
  dl_drop_last :: bool

definition train_dataloader :: dataloader where
  "train_dataloader =
     \<lparr>ds_root = ''../data/lincs'', ds_test_set = 0, ds_use_smiles = True,
      dl_batch_size = 256, dl_shuffle = True, dl_drop_last = False\<rparr>"

definition val_dataloader :: dataloader where
  "val_dataloader =
     \<lparr>ds_root = ''../data/lincs'', ds_test_set = 1, ds_use_smiles = True,
      dl_batch_size = 256, dl_shuffle = True, dl_drop_last = False\<rparr>"

subsection \<open>The script\<close>

datatype model_class = BiAAE | Lat_SAAE | UniAAE | CVAE | VCCA | JMVAE | VIB | SAAE

text \<open>
  The command line after parsing: \<open>parse_args m g\<close> is the namespace when \<open>--model\<close> was
  given the value \<open>m\<close> and \<open>--gpu\<close> the value \<open>g\<close> (\<open>None\<close>: the option is absent).
\<close>

record namespace =
  model :: string
  gpu :: int

definition parse_args :: "string option \<Rightarrow> int option \<Rightarrow> namespace" where
  "parse_args m g =
     \<lparr>model = (case m of None \<Rightarrow> ''biaae'' | Some s \<Rightarrow> s),
      gpu = (case g of None \<Rightarrow> - 1 | Some i \<Rightarrow> i)\<rparr>"

definition models_dict :: "string \<Rightarrow> model_class option" where
  "models_dict =
     map_of [(''biaae'', BiAAE), (''lat_saae'', Lat_SAAE), (''uniaae'', UniAAE),
             (''cvae'', CVAE), (''vcca'', VCCA), (''jmvae'', JMVAE), (''vib'', VIB),
             (''saae'', SAAE)]"

text \<open>
  The machine and the libraries the script runs on, as far as the run depends on them:
  the number of CUDA devices torch sees, the files present, what \<open>pl.Trainer\<close> raises
  for a non-empty GPU list (if anything) and what \<open>tr.fit\<close> raises (if anything).
\<close>

record host =
  cuda_devices :: nat
  has_file :: "string \<Rightarrow> bool"
  pl_trainer :: "int list \<Rightarrow> py_error option"
  pl_fit :: "py_error option"

datatype device = Cpu | Cuda nat

text \<open>
  What the script does to the outside, in order: one event per call into a library that
  builds a model, touches a file or trains. The event is recorded when the call is made,
  whether or not the call then raises. \<open>Fit\<close> carries the two data loaders the trainer
  obtains from the model.
\<close>

datatype event =
    ManualSeed nat
  | SuperInit model_class string
  | NewRNNEncoder nat
  | TorchLoad string device
  | LoadStateDict
  | NewFinetunedEncoder nat
  | NewFCDiscriminator nat
  | NewModelCheckpoint string bool nat
  | NewTestTubeLogger string string
  | NewTrainer "int list" bool nat bool
  | Fit dataloader dataloader
  | TorchSave string

text \<open>
  \<open>torch.load(path, map_location=loc)\<close>: a missing file raises; a checkpoint mapped to a
  CUDA device raises when the host has no device of that index.
\<close>

definition torch_load :: "host \<Rightarrow> string \<Rightarrow> device \<Rightarrow> py_error option" where
  "torch_load h path loc =
     (if \<not> has_file h path then Some FileNotFoundError
      else (case loc of
              Cpu \<Rightarrow> None
            | Cuda d \<Rightarrow> (if d < cuda_devices h then None else Some RuntimeError)))"

text \<open>
  \<open>pl.Trainer(gpus=gpus, ...)\<close>: the trainer refuses an empty GPU list (GPUs requested
  but none available); for any other list the host decides.
\<close>

definition new_trainer :: "host \<Rightarrow> int list \<Rightarrow> py_error option" where
  "new_trainer h gpus =
     (if gpus = [] then Some MisconfigurationException else pl_trainer h gpus)"

text \<open>
  \<open>CondGenExperiment.__init__\<close> for the class made from \<open>base\<close>; \<open>zdim\<close> is the
  attribute \<open>z_dim\<close> that the base class sets. The checkpoint of the encoder is mapped
  to \<open>cuda:1\<close>.
\<close>

definition init :: "host \<Rightarrow> model_class \<Rightarrow> nat \<Rightarrow> event list \<times> py_error option" where
  "init h base zdim =
     (let evs = [SuperInit base ''lincs_rnn'',
                 NewRNNEncoder 88,
                 TorchLoad ''../saved_models/rnn_enc.ckpt'' (Cuda 1)]
      in (case torch_load h ''../saved_models/rnn_enc.ckpt'' (Cuda 1) of
            Some e \<Rightarrow> (evs, Some e)
          | None \<Rightarrow>
              (evs @ [LoadStateDict,
                      NewFinetunedEncoder zdim,
                      NewFCDiscriminator (2 * zdim)], None)))"

definition trainer_gpus :: "int \<Rightarrow> int list" where
  "trainer_gpus g = (if g < 0 then [] else [g])"

definition main ::
  "host \<Rightarrow> (model_class \<Rightarrow> nat) \<Rightarrow> string option \<Rightarrow> int option
     \<Rightarrow> event list \<times> py_error option" where
  "main h zdim m g =
     (let seed = [ManualSeed 777];
          args = parse_args m g
      in (case models_dict (model args) of
            None \<Rightarrow> (seed, Some KeyError)
          | Some base \<Rightarrow>
     (case init h base (zdim base) of
        (evs, Some e) \<Rightarrow> (seed @ evs, Some e)
      | (evs, None) \<Rightarrow>
     (let evs = seed @ evs @
            [NewModelCheckpoint (''../saved_models/lincs_rnn_'' @ model args) False 10,
             NewTestTubeLogger ''../logs/'' (''lincs_rnn_'' @ model args),
             NewTrainer (trainer_gpus (gpu args)) False 400 False]
      in (case new_trainer h (trainer_gpus (gpu args)) of
            Some e \<Rightarrow> (evs, Some e)
          | None \<Rightarrow>
     (let evs = evs @ [Fit train_dataloader val_dataloader]
      in (case pl_fit h of
            Some e \<Rightarrow> (evs, Some e)
          | None \<Rightarrow>
              (evs @ [TorchSave (''../saved_models/lincs_rnn_'' @ model args @ ''.ckpt'')],
               None))))))))"

subsection \<open>Notions used to state the properties\<close>

text \<open>
  The Donsker-Varadhan bound in the words of the specification:
  \<open>t.mean() - log(mean(exp(t_shuffled)))\<close>.
\<close>

definition donsker_varadhan ::
  "('a, 'g, 'm) libs_scheme \<Rightarrow> 'a tensor \<Rightarrow> 'a tensor \<Rightarrow> 'a" where
  "donsker_varadhan L t t_shuffled =
     t_sub L (t_mean L (concat t))
       (t_log L (t_mean L (concat (map (map (t_exp L)) t_shuffled))))"

definition is_tuple :: "'o pyobj \<Rightarrow> bool" where
  "is_tuple v = (case v of PyTuple _ \<Rightarrow> True | _ \<Rightarrow> False)"

text \<open>The GPU lists of the trainers built in a run, and the paths a run touches.\<close>

fun gpus_of_event :: "event \<Rightarrow> int list list" where
  "gpus_of_event (NewTrainer gpus early_stop max_nb_epochs progress_bar) = [gpus]"
| "gpus_of_event _ = []"

definition trainers :: "event list \<Rightarrow> int list list" where
  "trainers evs = concat (map gpus_of_event evs)"



definition known_models :: "string set" where
  "known_models =
     {''biaae'', ''lat_saae'', ''uniaae'', ''cvae'', ''vcca'', ''jmvae'', ''vib'', ''saae''}"

subsection \<open>A concrete instance\<close>

text \<open>
  Exact real arithmetic for the tensor library, a generator that reverses the index
  range, and a small model with a tuple of optimizers (and one with a single optimizer).
\<close>

definition real_libs :: "(real, nat) libs" where
  "real_libs =
     \<lparr>t_exp = exp, t_log = ln, t_mean = (\<lambda>xs. sum_list xs / real (length xs)),
      t_sub = (-), t_add = (+), t_neg = uminus, t_detach = id,
      np_random_permutation = (\<lambda>g n. (rev [0..<n], Suc g))\<rparr>"

definition toy_experiment :: "(real, unit) cond_gen_experiment" where
  "toy_experiment =
     \<lparr>z_dim = 1,
      super_training_step =
        (\<lambda>batch batch_nb args. [''loss'' \<mapsto> Scalar 1, ''log'' \<mapsto> Dict Map.empty]),
      super_configure_optimizers = PyTuple [PyList [Obj (BaseOptimizer ())], PyList []],
      super_validation_step = None,
      get_latents = (\<lambda>batch. map (\<lambda>r. [sum_list r]) (snd batch)),
      sample = (\<lambda>y. map (\<lambda>r. ''C'') y),
      mine_enc = (\<lambda>x. map (\<lambda>s. [real (length s)]) x),
      mine_fc = (\<lambda>t. map (\<lambda>r. [prod_list r]) t)\<rparr>"

definition toy_vae :: "(real, unit) cond_gen_experiment" where
  "toy_vae = toy_experiment\<lparr>super_configure_optimizers := PyList [Obj (BaseOptimizer ())]\<rparr>"

text \<open>
  Two hosts with every file in place: one without a CUDA device, one with two devices
  whose trainer and training raise nothing.
\<close>

definition cpu_only :: host where
  "cpu_only =
     \<lparr>cuda_devices = 0, has_file = (\<lambda>path. True), pl_trainer = (\<lambda>gpus. None),
      pl_fit = None\<rparr>"

definition two_gpus :: host where
  "two_gpus =
     \<lparr>cuda_devices = 2, has_file = (\<lambda>path. True), pl_trainer = (\<lambda>gpus. None),
      pl_fit = None\<rparr>"

section \<open>Properties\<close>

subsection \<open>Auxiliary facts\<close>

lemma mset_index_rows:
  assumes "mset perm = mset [0..<length z]"
  shows "mset (map ((!) z) perm) = mset z"
proof -
  have "mset (map ((!) z) perm) = image_mset ((!) z) (mset perm)" by simp
  also have "\<dots> = image_mset ((!) z) (mset [0..<length z])" using assms by simp
  also have "\<dots> = mset (map ((!) z) [0..<length z])" by simp
  also have "\<dots> = mset z" by (simp add: map_nth)
  finally show ?thesis .
qed

lemma perm_in_range:
  assumes "mset perm = mset [0..<n]"
  shows "list_all (\<lambda>i. i < n) perm"
proof -
  have "set perm = set [0..<n]" using assms by (metis set_mset_mset)
  then show ?thesis by (auto simp: list_all_iff)
qed

lemma upt_0_2: "[0..<2] = [0, Suc 0]"
  by (simp add: upt_rec numeral_2_eq_2)

lemma those_map_Some: "those (map (\<lambda>x. Some (f x)) xs) = Some (map f xs)"
  by (induction xs) simp_all

lemma scalars_of_map_Scalar: "scalars_of (map Scalar xs) = Some xs"
  by (induction xs) simp_all

lemma list_all_is_tensor_Scalar: "list_all is_tensor (map Scalar xs)"
  by (induction xs) (simp_all add: is_tensor_def)

lemma stack_mean_scalars: "xs \<noteq> [] \<Longrightarrow> stack_mean L (map Scalar xs) = Inr (t_mean L xs)"
  by (simp add: stack_mean_def scalars_of_map_Scalar list_all_is_tensor_Scalar)

lemma models_dict_None: "m \<notin> known_models \<Longrightarrow> models_dict m = None"
  by (simp add: models_dict_def known_models_def)

text \<open>The estimate on the instance, for the batch used below.\<close>

lemma toy_mi:
  "mi_computation real_libs toy_experiment ([''C'', ''CC''], [[2], [4]]) [[2], [4]] (0::nat)
     = (Inr 1, 1)"
  by (simp add: mi_computation_def real_libs_def toy_experiment_def index_rows_def
        cat_last_def tensor_mean_def tensor_exp_def upt_0_2 Let_def)

subsection \<open>The mutual-information estimate\<close>

text \<open>
  Claim C1. For a batch \<open>(x, y)\<close> and latents \<open>z\<close> with one row per example,
  \<open>mi_computation\<close> returns the Donsker-Varadhan bound
  \<open>t.mean() - log(mean(exp(t_shuffled)))\<close>, where \<open>t\<close> is \<open>mine_fc\<close> on the encoded
  \<open>x\<close> joined row by row with \<open>z\<close>, and \<open>t_shuffled\<close> is \<open>mine_fc\<close> on the same
  encoded \<open>x\<close> joined with \<open>z_shuffled\<close>, the rows of \<open>z\<close> in the order of the
  permutation drawn; \<open>z_shuffled\<close> has exactly the rows of \<open>z\<close>.
\<close>

theorem mi_computation_donsker_varadhan:
  assumes "np_random_permutation L g (length z) = (perm, g')"
      and "mset perm = mset [0..<length z]"
      and "length (mine_enc self x) = length z"
  shows "let z_shuffled = map ((!) z) perm; x_lat = mine_enc self x in
           mset z_shuffled = mset z \<and>
           mi_computation L self (x, y) z g =
             (Inr (donsker_varadhan L (mine_fc self (map2 (@) x_lat z))
                     (mine_fc self (map2 (@) x_lat z_shuffled))), g')"
proof -
  have len: "length perm = length z"
    using assms(2) by (metis length_upt mset_eq_length minus_nat.diff_0)
  have idx: "index_rows z perm = Inr (map ((!) z) perm)"
    using perm_in_range [OF assms(2)] by (simp add: index_rows_def)
  have c1: "cat_last (mine_enc self x) z = Inr (map2 (@) (mine_enc self x) z)"
    using assms(3) by (simp add: cat_last_def)
  have c2: "cat_last (mine_enc self x) (map ((!) z) perm)
              = Inr (map2 (@) (mine_enc self x) (map ((!) z) perm))"
    using assms(3) len by (simp add: cat_last_def)
  show ?thesis
    using assms(1) idx c1 c2 mset_index_rows [OF assms(2)]
    by (simp add: mi_computation_def donsker_varadhan_def tensor_mean_def tensor_exp_def
          Let_def)
qed

theorem mi_computation_donsker_varadhan_witness:
  "np_random_permutation real_libs (0::nat) (length [[2::real], [4]]) = ([1, 0], 1) \<and>
   mset [1, 0] = mset [0..<length [[2::real], [4]]] \<and>
   length (mine_enc toy_experiment [''C'', ''CC'']) = length [[2::real], [4]] \<and>
   mset [[4::real], [2]] = mset [[2], [4]] \<and>
   mi_computation real_libs toy_experiment ([''C'', ''CC''], [[0], [0]]) [[2], [4]] 0
     = (Inr (donsker_varadhan real_libs [[2], [8]] [[4], [4]]), 1)"
  using mi_computation_donsker_varadhan
    [of real_libs 0 "[[2], [4]]" "[1, 0]" 1 toy_experiment "[''C'', ''CC'']" "[[0], [0]]"]
  by (simp add: real_libs_def toy_experiment_def upt_0_2 Let_def)

subsection \<open>training_step\<close>

text \<open>
  Claim C2. When \<open>training_step\<close> is called with no optimizer index (a VAE-like
  model), it returns the stats of the base class with the loss increased by the negative
  of the MI estimate and with the log entry \<open>mi[xz|y]\<close> set to that estimate. The
  estimate is computed on the batch whose second component is detached, with the latents
  of that batch detached.
\<close>

theorem training_step_vae:
  assumes "super_training_step self (x, y) batch_nb [] = stats"
      and "stats ''loss'' = Some (Scalar loss)"
      and "stats ''log'' = Some (Dict logd)"
      and "mi_computation L self (x, t_detach L y)
             (t_detach L (get_latents self (x, t_detach L y))) g = (Inr mi, g')"
  shows "training_step L self (x, y) batch_nb [] g =
           (Inr (stats(''loss'' \<mapsto> Scalar (t_add L loss (t_neg L mi)),
                       ''log'' \<mapsto> Dict (logd(''mi[xz|y]'' \<mapsto> Scalar mi)))), g')"
  using assms by (simp add: training_step_def iadd_item_def set_item2_def Let_def)

theorem training_step_vae_witness:
  "training_step real_libs toy_experiment ([''C'', ''CC''], [[2], [4]]) 0 [] (0::nat) =
     (Inr [''loss'' \<mapsto> Scalar 0, ''log'' \<mapsto> Dict [''mi[xz|y]'' \<mapsto> Scalar 1]], 1)"
proof -
  have h1: "super_training_step toy_experiment ([''C'', ''CC''], [[2], [4]]) 0 []
              = [''loss'' \<mapsto> Scalar 1, ''log'' \<mapsto> Dict Map.empty]"
    by (simp add: toy_experiment_def)
  have h2: "[''loss'' \<mapsto> Scalar (1::real), ''log'' \<mapsto> Dict Map.empty] ''loss''
              = Some (Scalar 1)"
    by simp
  have h3: "[''loss'' \<mapsto> Scalar (1::real), ''log'' \<mapsto> Dict Map.empty] ''log''
              = Some (Dict Map.empty)"
    by simp
  have h4: "mi_computation real_libs toy_experiment
              ([''C'', ''CC''], t_detach real_libs [[2], [4]])
              (t_detach real_libs
                 (get_latents toy_experiment ([''C'', ''CC''], t_detach real_libs [[2], [4]])))
              (0::nat) = (Inr 1, 1)"
    using toy_mi by (simp add: real_libs_def toy_experiment_def)
  show ?thesis
    unfolding training_step_vae [OF h1 h2 h3 h4]
    by (simp add: real_libs_def fun_eq_iff)
qed

text \<open>
  Claim C3. When \<open>training_step\<close> is called with optimizer index 2 (an AAE-like
  model), the stats returned are exactly \<open>{'loss': -mi, 'log': {'mi[xz|y]': mi}}\<close>
  for the MI estimate on the detached batch and latents, whatever the base class
  returned.
\<close>

theorem training_step_aae_mi_optimizer:
  assumes "mi_computation L self (x, t_detach L y)
             (t_detach L (get_latents self (x, t_detach L y))) g = (Inr mi, g')"
  shows "training_step L self (x, y) batch_nb (2 # rest) g =
           (Inr [''loss'' \<mapsto> Scalar (t_neg L mi),
                 ''log'' \<mapsto> Dict [''mi[xz|y]'' \<mapsto> Scalar mi]], g')"
  using assms by (simp add: training_step_def set_item2_def Let_def)

theorem training_step_aae_mi_optimizer_witness:
  "training_step real_libs toy_experiment ([''C'', ''CC''], [[2], [4]]) 0 [2] (0::nat) =
     (Inr [''loss'' \<mapsto> Scalar (- 1), ''log'' \<mapsto> Dict [''mi[xz|y]'' \<mapsto> Scalar 1]], 1)"
proof -
  have h: "mi_computation real_libs toy_experiment
              ([''C'', ''CC''], t_detach real_libs [[2], [4]])
              (t_detach real_libs
                 (get_latents toy_experiment ([''C'', ''CC''], t_detach real_libs [[2], [4]])))
              (0::nat) = (Inr 1, 1)"
    using toy_mi by (simp add: real_libs_def toy_experiment_def)
  show ?thesis
    unfolding training_step_aae_mi_optimizer [OF h]
    by (simp add: real_libs_def)
qed

text \<open>
  Claim C10. When \<open>training_step\<close> is called with an optimizer index other than 2, the
  stats of the base class are returned unchanged and no MI estimate is computed: the
  call succeeds whatever the networks would return and leaves the generator state as it
  was.
\<close>

theorem training_step_aae_other_optimizer:
  assumes "optimizer_nb \<noteq> 2"
  shows "training_step L self batch batch_nb (optimizer_nb # rest) g =
           (Inr (super_training_step self batch batch_nb (optimizer_nb # rest)), g)"
  using assms by (simp add: training_step_def Let_def)

theorem training_step_aae_other_optimizer_witness:
  "(0::int) \<noteq> 2 \<and> (1::int) \<noteq> 2 \<and>
   training_step real_libs toy_experiment ([''C'', ''CC''], [[2], [4]]) 0 [0] (0::nat) =
     (Inr [''loss'' \<mapsto> Scalar 1, ''log'' \<mapsto> Dict Map.empty], 0) \<and>
   training_step real_libs toy_experiment ([''C'', ''CC''], [[2], [4]]) 0 [1] (0::nat) =
     (Inr [''loss'' \<mapsto> Scalar 1, ''log'' \<mapsto> Dict Map.empty], 0)"
  using training_step_aae_other_optimizer
          [of 0 real_libs toy_experiment "([''C'', ''CC''], [[2], [4]])" 0 "[]" "0::nat"]
        training_step_aae_other_optimizer
          [of 1 real_libs toy_experiment "([''C'', ''CC''], [[2], [4]])" 0 "[]" "0::nat"]
  by (simp add: toy_experiment_def)

subsection \<open>configure_optimizers\<close>

text \<open>
  Claim C4. When the base class returns a tuple whose first element is a list of
  optimizers, \<open>configure_optimizers\<close> appends one Adam optimizer with learning rate
  \<open>3e-4\<close> over the parameters of \<open>mine_fc\<close> and \<open>mine_enc\<close> to that list; when the
  base class does not return a tuple, its result is returned unchanged; and a returned
  value differs from the base class's result exactly when that result is a tuple.
\<close>

theorem configure_optimizers_appends_adam:
  "(super_configure_optimizers self = PyTuple (PyList opts # rest) \<longrightarrow>
      configure_optimizers self =
        Inr (PyTuple (PyList (opts @ [Obj (Adam [''mine_fc'', ''mine_enc''] (3 / 10 ^ 4))])
               # rest))) \<and>
   (\<not> is_tuple (super_configure_optimizers self) \<longrightarrow>
      configure_optimizers self = Inr (super_configure_optimizers self)) \<and>
   (configure_optimizers self = Inr r \<longrightarrow>
      (r \<noteq> super_configure_optimizers self \<longleftrightarrow> is_tuple (super_configure_optimizers self)))"
  by (auto simp: configure_optimizers_def is_tuple_def mi_params_def Let_def
           split: pyobj.splits list.splits)

theorem configure_optimizers_appends_adam_witness:
  "is_tuple (super_configure_optimizers toy_experiment) \<and>
   configure_optimizers toy_experiment =
     Inr (PyTuple [PyList [Obj (BaseOptimizer ()),
                           Obj (Adam [''mine_fc'', ''mine_enc''] (3 / 10 ^ 4))],
                   PyList []]) \<and>
   \<not> is_tuple (super_configure_optimizers toy_vae) \<and>
   configure_optimizers toy_vae = Inr (PyList [Obj (BaseOptimizer ())])"
  using configure_optimizers_appends_adam
          [of toy_experiment "[Obj (BaseOptimizer ())]" "[PyList []]"]
        configure_optimizers_appends_adam [of toy_vae]
  by (simp add: toy_experiment_def toy_vae_def is_tuple_def)

subsection \<open>validation_step and validation_end\<close>

text \<open>
  Claim C5. For a validation batch \<open>(x, y)\<close>, \<open>validation_step\<close> returns a stats
  dictionary with \<open>mi[xz|y]\<close> the MI estimate, \<open>x_sam\<close> the molecules sampled from
  \<open>y\<close>, and \<open>x\<close> and \<open>y\<close> the batch components; when the base class returns None
  the dictionary has these four entries only. On a list of such outputs,
  \<open>validation_end\<close> returns a log whose entry \<open>val_mi[xz|y]\<close> is the mean of the
  \<open>mi[xz|y]\<close> values of all outputs, and adds to the logger, under the tag
  \<open>samples\<close>, the grid image (five per row) of the first five sampled molecules
  followed by the first five real molecules of the first output.
\<close>

theorem validation_step_and_end:
  "(mi_computation L self (x, y) (get_latents self (x, y)) g = (Inr mi, g') \<longrightarrow>
      (\<exists>stats. validation_step L self (x, y) batch_nb g = (Inr stats, g') \<and>
         stats ''mi[xz|y]'' = Some (Scalar mi) \<and>
         stats ''x_sam'' = Some (Strs (sample self y)) \<and>
         stats ''x'' = Some (Strs x) \<and>
         stats ''y'' = Some (Tensor y) \<and>
         (super_validation_step self = None \<longrightarrow>
            stats = [''mi[xz|y]'' \<mapsto> Scalar mi, ''x_sam'' \<mapsto> Strs (sample self y),
                     ''x'' \<mapsto> Strs x, ''y'' \<mapsto> Tensor y]))) \<and>
   (outputs = first_out # outs \<and>
    map (\<lambda>out. out ''mi[xz|y]'') outputs = map (\<lambda>m. Some (Scalar m)) mis \<and>
    first_out ''x_sam'' = Some (Strs sam_first) \<and> first_out ''x'' = Some (Strs xs_first) \<longrightarrow>
      validation_end L outputs logger =
        Inr (logger @
               [(''samples'',
                 FigArray (10, 4) 300
                   (MolsToGridImage
                      (map MolFromSmiles (take 5 sam_first) @ map MolFromSmiles (take 5 xs_first)) 5))],
             [''log'' \<mapsto> Dict [''val_mi[xz|y]'' \<mapsto> Scalar (t_mean L mis)]]))"
proof (intro conjI impI)
  assume "mi_computation L self (x, y) (get_latents self (x, y)) g = (Inr mi, g')"
  then show "\<exists>stats. validation_step L self (x, y) batch_nb g = (Inr stats, g') \<and>
         stats ''mi[xz|y]'' = Some (Scalar mi) \<and>
         stats ''x_sam'' = Some (Strs (sample self y)) \<and>
         stats ''x'' = Some (Strs x) \<and>
         stats ''y'' = Some (Tensor y) \<and>
         (super_validation_step self = None \<longrightarrow>
            stats = [''mi[xz|y]'' \<mapsto> Scalar mi, ''x_sam'' \<mapsto> Strs (sample self y),
                     ''x'' \<mapsto> Strs x, ''y'' \<mapsto> Tensor y])"
    by (simp add: validation_step_def Let_def)
next
  assume a: "outputs = first_out # outs \<and>
    map (\<lambda>out. out ''mi[xz|y]'') outputs = map (\<lambda>m. Some (Scalar m)) mis \<and>
    first_out ''x_sam'' = Some (Strs sam_first) \<and> first_out ''x'' = Some (Strs xs_first)"
  then have ne: "mis \<noteq> []" by auto
  have eq: "map (\<lambda>out. out ''mi[xz|y]'') outputs = map (\<lambda>m. Some (Scalar m)) mis"
    using a by blast
  have th: "those (map (\<lambda>out. out ''mi[xz|y]'') outputs) = Some (map Scalar mis)"
    unfolding eq by (rule those_map_Some)
  show "validation_end L outputs logger =
        Inr (logger @
               [(''samples'',
                 FigArray (10, 4) 300
                   (MolsToGridImage
                      (map MolFromSmiles (take 5 sam_first) @ map MolFromSmiles (take 5 xs_first)) 5))],
             [''log'' \<mapsto> Dict [''val_mi[xz|y]'' \<mapsto> Scalar (t_mean L mis)]])"
    unfolding validation_end_def th
    using a by (simp add: stack_mean_scalars [OF ne] mols_of_first5_def Let_def)
qed

theorem validation_step_and_end_witness:
  "validation_step real_libs toy_experiment ([''C'', ''CC''], [[2], [4]]) 0 (0::nat) =
     (Inr [''mi[xz|y]'' \<mapsto> Scalar 1, ''x_sam'' \<mapsto> Strs [''C'', ''C''],
           ''x'' \<mapsto> Strs [''C'', ''CC''], ''y'' \<mapsto> Tensor [[2], [4]]], 1) \<and>
   validation_end real_libs
     [[''mi[xz|y]'' \<mapsto> Scalar 1, ''x_sam'' \<mapsto> Strs [''C'', ''C''],
       ''x'' \<mapsto> Strs [''C'', ''CC''], ''y'' \<mapsto> Tensor [[2], [4]]],
      [''mi[xz|y]'' \<mapsto> Scalar 3, ''x_sam'' \<mapsto> Strs [''N''],
       ''x'' \<mapsto> Strs [''O''], ''y'' \<mapsto> Tensor [[1]]]] [] =
     Inr ([(''samples'',
            FigArray (10, 4) 300
              (MolsToGridImage
                 [MolFromSmiles ''C'', MolFromSmiles ''C'', MolFromSmiles ''C'',
                  MolFromSmiles ''CC''] 5))],
          [''log'' \<mapsto> Dict [''val_mi[xz|y]'' \<mapsto> Scalar 2]])"
proof -
  have h: "mi_computation real_libs toy_experiment ([''C'', ''CC''], [[2], [4]])
             (get_latents toy_experiment ([''C'', ''CC''], [[2], [4]])) (0::nat) = (Inr 1, 1)"
    using toy_mi by (simp add: toy_experiment_def)
  have n: "super_validation_step toy_experiment = None"
    by (simp add: toy_experiment_def)
  show ?thesis
    using h n
      validation_step_and_end
        [where L = real_libs and self = toy_experiment and x = "[''C'', ''CC'']"
           and y = "[[2], [4]]" and g = "0::nat" and g' = 1 and mi = 1 and batch_nb = 0
           and first_out = "[''mi[xz|y]'' \<mapsto> Scalar 1, ''x_sam'' \<mapsto> Strs [''C'', ''C''],
                        ''x'' \<mapsto> Strs [''C'', ''CC''], ''y'' \<mapsto> Tensor [[2], [4]]]"
           and outs = "[[''mi[xz|y]'' \<mapsto> Scalar 3, ''x_sam'' \<mapsto> Strs [''N''],
                         ''x'' \<mapsto> Strs [''O''], ''y'' \<mapsto> Tensor [[1]]]]"
           and outputs = "[[''mi[xz|y]'' \<mapsto> Scalar 1, ''x_sam'' \<mapsto> Strs [''C'', ''C''],
                            ''x'' \<mapsto> Strs [''C'', ''CC''], ''y'' \<mapsto> Tensor [[2], [4]]],
                           [''mi[xz|y]'' \<mapsto> Scalar 3, ''x_sam'' \<mapsto> Strs [''N''],
                            ''x'' \<mapsto> Strs [''O''], ''y'' \<mapsto> Tensor [[1]]]]"
           and mis = "[1, 3]" and sam_first = "[''C'', ''C'']" and xs_first = "[''C'', ''CC'']"
           and logger = "[]"]
    by (simp add: real_libs_def toy_experiment_def)
qed

subsection \<open>The command line and the run\<close>

text \<open>
  A run with a known model stops at the first call that raises: the loading of the
  encoder checkpoint, the construction of the trainer, the training; or it completes.
\<close>

lemma main_load_fails:
  assumes "models_dict (model (parse_args m g)) = Some base"
      and "torch_load h ''../saved_models/rnn_enc.ckpt'' (Cuda 1) = Some e"
  shows "main h zdim m g =
           ([ManualSeed 777, SuperInit base ''lincs_rnn'', NewRNNEncoder 88,
             TorchLoad ''../saved_models/rnn_enc.ckpt'' (Cuda 1)], Some e)"
  using assms by (simp add: main_def init_def Let_def)

lemma main_trainer_fails:
  assumes "models_dict (model (parse_args m g)) = Some base"
      and "torch_load h ''../saved_models/rnn_enc.ckpt'' (Cuda 1) = None"
      and "new_trainer h (trainer_gpus (gpu (parse_args m g))) = Some e"
  shows "main h zdim m g =
           ([ManualSeed 777, SuperInit base ''lincs_rnn'', NewRNNEncoder 88,
             TorchLoad ''../saved_models/rnn_enc.ckpt'' (Cuda 1), LoadStateDict,
             NewFinetunedEncoder (zdim base), NewFCDiscriminator (2 * zdim base),
             NewModelCheckpoint (''../saved_models/lincs_rnn_'' @ model (parse_args m g)) False 10,
             NewTestTubeLogger ''../logs/'' (''lincs_rnn_'' @ model (parse_args m g)),
             NewTrainer (trainer_gpus (gpu (parse_args m g))) False 400 False], Some e)"
  using assms by (simp add: main_def init_def Let_def)

lemma main_fit_fails:
  assumes "models_dict (model (parse_args m g)) = Some base"
      and "torch_load h ''../saved_models/rnn_enc.ckpt'' (Cuda 1) = None"
      and "new_trainer h (trainer_gpus (gpu (parse_args m g))) = None"
      and "pl_fit h = Some e"
  shows "main h zdim m g =
           ([ManualSeed 777, SuperInit base ''lincs_rnn'', NewRNNEncoder 88,
             TorchLoad ''../saved_models/rnn_enc.ckpt'' (Cuda 1), LoadStateDict,
             NewFinetunedEncoder (zdim base), NewFCDiscriminator (2 * zdim base),
             NewModelCheckpoint (''../saved_models/lincs_rnn_'' @ model (parse_args m g)) False 10,
             NewTestTubeLogger ''../logs/'' (''lincs_rnn_'' @ model (parse_args m g)),
             NewTrainer (trainer_gpus (gpu (parse_args m g))) False 400 False,
             Fit train_dataloader val_dataloader], Some e)"
  using assms by (simp add: main_def init_def Let_def)

lemma main_completes:
  assumes "models_dict (model (parse_args m g)) = Some base"
      and "torch_load h ''../saved_models/rnn_enc.ckpt'' (Cuda 1) = None"
      and "new_trainer h (trainer_gpus (gpu (parse_args m g))) = None"
      and "pl_fit h = None"
  shows "main h zdim m g =
           ([ManualSeed 777, SuperInit base ''lincs_rnn'', NewRNNEncoder 88,
             TorchLoad ''../saved_models/rnn_enc.ckpt'' (Cuda 1), LoadStateDict,
             NewFinetunedEncoder (zdim base), NewFCDiscriminator (2 * zdim base),
             NewModelCheckpoint (''../saved_models/lincs_rnn_'' @ model (parse_args m g)) False 10,
             NewTestTubeLogger ''../logs/'' (''lincs_rnn_'' @ model (parse_args m g)),
             NewTrainer (trainer_gpus (gpu (parse_args m g))) False 400 False,
             Fit train_dataloader val_dataloader,
             TorchSave (''../saved_models/lincs_rnn_'' @ model (parse_args m g) @ ''.ckpt'')],
            None)"
  using assms by (simp add: main_def init_def Let_def)

lemma main_cases:
  assumes "models_dict (model (parse_args m g)) = Some base"
  obtains (load) e where "torch_load h ''../saved_models/rnn_enc.ckpt'' (Cuda 1) = Some e"
  | (trainer) e where "torch_load h ''../saved_models/rnn_enc.ckpt'' (Cuda 1) = None"
      "new_trainer h (trainer_gpus (gpu (parse_args m g))) = Some e"
  | (fit) e where "torch_load h ''../saved_models/rnn_enc.ckpt'' (Cuda 1) = None"
      "new_trainer h (trainer_gpus (gpu (parse_args m g))) = None" "pl_fit h = Some e"
  | (complete) "torch_load h ''../saved_models/rnn_enc.ckpt'' (Cuda 1) = None"
      "new_trainer h (trainer_gpus (gpu (parse_args m g))) = None" "pl_fit h = None"
  by (cases "torch_load h ''../saved_models/rnn_enc.ckpt'' (Cuda 1)";
      cases "new_trainer h (trainer_gpus (gpu (parse_args m g)))"; cases "pl_fit h") auto

lemma main_selects:
  assumes "models_dict (model (parse_args m g)) = Some cls"
  shows "take 2 (fst (main h zdim m g)) = [ManualSeed 777, SuperInit cls ''lincs_rnn'']"
  using assms
  by (cases rule: main_cases [OF assms, of h])
     (simp_all add: main_load_fails main_trainer_fails main_fit_fails main_completes)

lemma main_builds:
  assumes "models_dict (model (parse_args m g)) = Some cls"
      and "has_file h ''../saved_models/rnn_enc.ckpt''" and "2 \<le> cuda_devices h"
  shows "take 7 (fst (main h zdim m g)) =
        [ManualSeed 777, SuperInit cls ''lincs_rnn'', NewRNNEncoder 88,
         TorchLoad ''../saved_models/rnn_enc.ckpt'' (Cuda 1), LoadStateDict,
         NewFinetunedEncoder (zdim cls), NewFCDiscriminator (2 * zdim cls)]"
proof -
  have l: "torch_load h ''../saved_models/rnn_enc.ckpt'' (Cuda 1) = None"
    using assms(2,3) by (simp add: torch_load_def)
  show ?thesis
    using l
    by (cases rule: main_cases [OF assms(1), of h])
       (simp_all add: main_trainer_fails [OF assms(1)] main_fit_fails [OF assms(1)]
          main_completes [OF assms(1)])
qed

text \<open>
  Claim C6. \<open>--model\<close> defaults to \<open>biaae\<close>. For each of the eight names, and for
  the default, the first thing the run does after seeding is to initialise the
  experiment on the class of that name (BiAAE, Lat_SAAE, UniAAE, CVAE, VCCA, JMVAE, VIB,
  SAAE respectively) with the dataset \<open>lincs_rnn\<close>; where the encoder checkpoint is
  present and loadable the construction goes on to completion with that class: the
  encoder of width 88, the loaded state, the fine-tuned encoder of width \<open>z_dim\<close> and
  the discriminator of width \<open>2 * z_dim\<close>.
\<close>

theorem model_default_and_selection:
  "model (parse_args None g) = ''biaae'' \<and>
   take 2 (fst (main h zdim None g)) = [ManualSeed 777, SuperInit BiAAE ''lincs_rnn''] \<and>
   take 2 (fst (main h zdim (Some ''biaae'') g)) = [ManualSeed 777, SuperInit BiAAE ''lincs_rnn''] \<and>
   take 2 (fst (main h zdim (Some ''lat_saae'') g)) = [ManualSeed 777, SuperInit Lat_SAAE ''lincs_rnn''] \<and>
   take 2 (fst (main h zdim (Some ''uniaae'') g)) = [ManualSeed 777, SuperInit UniAAE ''lincs_rnn''] \<and>
   take 2 (fst (main h zdim (Some ''cvae'') g)) = [ManualSeed 777, SuperInit CVAE ''lincs_rnn''] \<and>
   take 2 (fst (main h zdim (Some ''vcca'') g)) = [ManualSeed 777, SuperInit VCCA ''lincs_rnn''] \<and>
   take 2 (fst (main h zdim (Some ''jmvae'') g)) = [ManualSeed 777, SuperInit JMVAE ''lincs_rnn''] \<and>
   take 2 (fst (main h zdim (Some ''vib'') g)) = [ManualSeed 777, SuperInit VIB ''lincs_rnn''] \<and>
   take 2 (fst (main h zdim (Some ''saae'') g)) = [ManualSeed 777, SuperInit SAAE ''lincs_rnn''] \<and>
   (models_dict (model (parse_args m g)) = Some cls \<and>
    has_file h ''../saved_models/rnn_enc.ckpt'' \<and> 2 \<le> cuda_devices h \<longrightarrow>
      take 7 (fst (main h zdim m g)) =
        [ManualSeed 777, SuperInit cls ''lincs_rnn'', NewRNNEncoder 88,
         TorchLoad ''../saved_models/rnn_enc.ckpt'' (Cuda 1), LoadStateDict,
         NewFinetunedEncoder (zdim cls), NewFCDiscriminator (2 * zdim cls)])"
proof -
  have d: "model (parse_args None g) = ''biaae''" by (simp add: parse_args_def)
  have s: "\<And>name cls. models_dict name = Some cls \<Longrightarrow>
             take 2 (fst (main h zdim (Some name) g)) = [ManualSeed 777, SuperInit cls ''lincs_rnn'']"
    by (rule main_selects) (simp add: parse_args_def)
  have n: "take 2 (fst (main h zdim None g)) = [ManualSeed 777, SuperInit BiAAE ''lincs_rnn'']"
    by (rule main_selects) (simp add: parse_args_def models_dict_def)
  show ?thesis
    using d n main_builds [of m g cls h zdim]
    by (simp add: s models_dict_def)
qed

theorem model_default_and_selection_witness:
  "take 7 (fst (main two_gpus (\<lambda>c. 8) (Some ''vcca'') (Some 0))) =
     [ManualSeed 777, SuperInit VCCA ''lincs_rnn'', NewRNNEncoder 88,
      TorchLoad ''../saved_models/rnn_enc.ckpt'' (Cuda 1), LoadStateDict,
      NewFinetunedEncoder 8, NewFCDiscriminator 16] \<and>
   take 7 (fst (main two_gpus (\<lambda>c. 8) None None)) =
     [ManualSeed 777, SuperInit BiAAE ''lincs_rnn'', NewRNNEncoder 88,
      TorchLoad ''../saved_models/rnn_enc.ckpt'' (Cuda 1), LoadStateDict,
      NewFinetunedEncoder 8, NewFCDiscriminator 16]"
  using model_default_and_selection
          [where h = two_gpus and zdim = "\<lambda>c. 8" and m = "Some ''vcca''" and g = "Some 0"
             and cls = VCCA]
        model_default_and_selection
          [where h = two_gpus and zdim = "\<lambda>c. 8" and m = None and g = None and cls = BiAAE]
  by (simp add: two_gpus_def parse_args_def models_dict_def)

text \<open>
  Claim C7, at the inputs where the script departs from it. With \<open>--gpu\<close> absent or
  \<open>-1\<close> on a host without CUDA devices, the run ends inside the constructor of the
  experiment: the encoder checkpoint is mapped to \<open>cuda:1\<close> whatever \<open>--gpu\<close> is, the
  load raises RuntimeError, and no trainer is built. On a host with two devices the
  trainer is called with the empty GPU list and refuses it, so the run ends in an error
  there, before any training.
\<close>

theorem gpu_negative_never_trains:
  "main cpu_only zdim None None =
     ([ManualSeed 777, SuperInit BiAAE ''lincs_rnn'', NewRNNEncoder 88,
       TorchLoad ''../saved_models/rnn_enc.ckpt'' (Cuda 1)], Some RuntimeError) \<and>
   main cpu_only zdim None (Some (- 1)) =
     ([ManualSeed 777, SuperInit BiAAE ''lincs_rnn'', NewRNNEncoder 88,
       TorchLoad ''../saved_models/rnn_enc.ckpt'' (Cuda 1)], Some RuntimeError) \<and>
   trainers (fst (main cpu_only zdim None (Some (- 1)))) = [] \<and>
   fst (main two_gpus zdim None (Some (- 1))) =
     [ManualSeed 777, SuperInit BiAAE ''lincs_rnn'', NewRNNEncoder 88,
      TorchLoad ''../saved_models/rnn_enc.ckpt'' (Cuda 1), LoadStateDict,
      NewFinetunedEncoder (zdim BiAAE), NewFCDiscriminator (2 * zdim BiAAE),
      NewModelCheckpoint ''../saved_models/lincs_rnn_biaae'' False 10,
      NewTestTubeLogger ''../logs/'' ''lincs_rnn_biaae'',
      NewTrainer [] False 400 False] \<and>
   snd (main two_gpus zdim None (Some (- 1))) \<noteq> None"
  by (simp add: main_def parse_args_def models_dict_def init_def torch_load_def
        new_trainer_def trainer_gpus_def trainers_def cpu_only_def two_gpus_def Let_def)

text \<open>
  The same for every host and every known model: a negative gpu value never trains.
  What the trainer is called with, in a run that reaches it, is the empty list for a
  negative value and the one-element list of the gpu index otherwise.
\<close>

lemma negative_gpu_run_fails:
  assumes "models_dict (model (parse_args m g)) = Some base"
      and "gpu (parse_args m g) < 0"
  shows "snd (main h zdim m g) \<noteq> None \<and> Fit train val \<notin> set (fst (main h zdim m g))"
proof -
  have t: "new_trainer h (trainer_gpus (gpu (parse_args m g))) = Some MisconfigurationException"
    using assms(2) by (simp add: new_trainer_def trainer_gpus_def)
  show ?thesis
    using t
    by (cases rule: main_cases [OF assms(1), of h])
       (simp_all add: main_load_fails [OF assms(1)] main_trainer_fails [OF assms(1)])
qed

lemma trainer_receives_gpu:
  assumes "models_dict (model (parse_args m g)) = Some base"
      and "torch_load h ''../saved_models/rnn_enc.ckpt'' (Cuda 1) = None"
  shows "trainers (fst (main h zdim m g)) =
           [if gpu (parse_args m g) < 0 then [] else [gpu (parse_args m g)]]"
  using assms(2)
  by (cases rule: main_cases [OF assms(1), of h])
     (simp_all add: main_trainer_fails [OF assms(1)] main_fit_fails [OF assms(1)]
        main_completes [OF assms(1)] trainers_def trainer_gpus_def)

text \<open>
  Claim C8. For a \<open>--model\<close> value outside the eight known names the run ends with
  KeyError after the seeding alone: no model has been built and no training has begun.
\<close>

theorem unknown_model_key_error:
  assumes "m \<notin> known_models"
  shows "main h zdim (Some m) g = ([ManualSeed 777], Some KeyError)"
  using models_dict_None [OF assms] by (simp add: main_def parse_args_def Let_def)

theorem unknown_model_key_error_witness:
  "''gan'' \<notin> known_models \<and>
   main two_gpus (\<lambda>c. 8) (Some ''gan'') (Some 0) = ([ManualSeed 777], Some KeyError)"
proof -
  have h: "''gan'' \<notin> known_models" by (simp add: known_models_def)
  show ?thesis
    using h unknown_model_key_error [OF h, where h = two_gpus and zdim = "\<lambda>c. 8" and g = "Some 0"]
    by simp
qed



end
